theory Spec2Isabelle
  imports Complex_Main
begin

section \<open>Values exchanged with the client\<close>

text \<open>
  Every inbound message is the result of \<^verbatim>\<open>json.loads\<close>: a JSON value. An object is
  kept as the list of its members and read with \<open>map_of\<close>; a string is a list of
  characters, one per code point.
\<close>

datatype json =
    JNull
  | JBool bool
  | JNum rat
  | JStr string
  | JArr "json list"
  | JObj "(string \<times> json) list"

type_synonym dict = "(string \<times> json) list"

text \<open>The Python exceptions the modelled code can raise.\<close>

datatype error =
    KeyError string
  | TypeError
  | AttributeError
  | ValueError string
  | RuntimeError string
  | ExternalError

section \<open>The polling transport (app.py)\<close>

subsection \<open>Session registry\<close>

text \<open>
  An entry of \<^verbatim>\<open>active_sessions\<close>. The handles \<^verbatim>\<open>playwright\<close>, \<^verbatim>\<open>browser\<close>,
  \<^verbatim>\<open>context\<close> and \<^verbatim>\<open>page\<close> belong to the browser engine; the two fields the code
  reads and writes itself are kept.
\<close>

record session =
  last_screenshot :: "string option"
  mouse_down :: bool

type_synonym sessions = "string \<rightharpoonup> session"

definition start_browser_session :: "string \<Rightarrow> sessions \<Rightarrow> sessions" where
  "start_browser_session session_id active_sessions =
     active_sessions(session_id \<mapsto> \<lparr>last_screenshot = None, mouse_down = False\<rparr>)"

definition close_browser_session :: "string \<Rightarrow> sessions \<Rightarrow> sessions" where
  "close_browser_session session_id active_sessions =
     (if session_id \<in> dom active_sessions then active_sessions(session_id := None)
      else active_sessions)"

subsection \<open>Calls made on the page\<close>

text \<open>
  Each awaited call on the Playwright page (and each \<^verbatim>\<open>asyncio.sleep\<close>,
  \<^verbatim>\<open>print\<close> and \<^verbatim>\<open>websocket.send_json\<close>) is recorded, in order, with the
  arguments the code passes. Coordinates, deltas and URLs are passed through as the
  JSON values received; \<open>SendScreenshot d\<close> is the message
  \<^verbatim>\<open>{"type": "screenshot", "data": d}\<close>. The calls on the page are taken to
  return: one that raises would leave the handler and the receive loop at that point.
\<close>

datatype action =
    MouseMove json json
  | MouseClick json json
  | MouseDown
  | MouseUp
  | Sleep rat
  | BringToFront
  | KeyboardPress string
  | KeyboardType string
  | Reload
  | PrintUnhandledKey string
  | MouseWheel json json
  | Goto json
  | SetViewportSize json json
  | SendScreenshot string
  | PrintError

subsection \<open>handle_mouse_event\<close>

text \<open>
  Lines 64 to 68: the update of the session's \<^verbatim>\<open>mouse_down\<close> entry. The value
  \<^verbatim>\<open>is_double_click\<close> read at line 62 is not used by the function.
\<close>

definition update_mouse_state :: "json \<Rightarrow> string \<Rightarrow> sessions \<Rightarrow> error + sessions" where
  "update_mouse_state event_type session_id active_sessions =
     (if event_type = JStr ''mousedown'' then
        (case active_sessions session_id of
           None \<Rightarrow> Inl (KeyError session_id)
         | Some s \<Rightarrow> Inr (active_sessions(session_id \<mapsto> s\<lparr>mouse_down := True\<rparr>)))
      else if event_type \<in> set [JStr ''mouseup'', JStr ''dblclick''] then
        (case active_sessions session_id of
           None \<Rightarrow> Inl (KeyError session_id)
         | Some s \<Rightarrow> Inr (active_sessions(session_id \<mapsto> s\<lparr>mouse_down := False\<rparr>)))
      else Inr active_sessions)"

text \<open>Lines 73 to 87: the calls that follow the unconditional move of line 71.\<close>

definition mouse_dispatch ::
  "json \<Rightarrow> json \<Rightarrow> json \<Rightarrow> string \<Rightarrow> sessions \<Rightarrow> action list \<times> error option" where
  "mouse_dispatch event_type x y session_id active_sessions =
     (if event_type = JStr ''mousedown'' then ([MouseClick x y], None)
      else if event_type = JStr ''mouseup'' then ([MouseUp], None)
      else if event_type = JStr ''dblclick'' then
        ([MouseDown, MouseUp, Sleep (1 / 10), MouseDown, MouseUp], None)
      else if event_type = JStr ''mousemove'' then
        (case active_sessions session_id of
           None \<Rightarrow> ([], Some (KeyError session_id))
         | Some s \<Rightarrow> (if mouse_down s then ([MouseMove x y], None) else ([], None)))
      else ([], None))"

definition handle_mouse_event ::
  "dict \<Rightarrow> string \<Rightarrow> sessions \<Rightarrow> sessions \<times> action list \<times> error option" where
  "handle_mouse_event event session_id active_sessions =
     (case map_of event ''eventType'' of
        None \<Rightarrow> (active_sessions, [], Some (KeyError ''eventType''))
      | Some event_type \<Rightarrow>
     (case map_of event ''x'' of
        None \<Rightarrow> (active_sessions, [], Some (KeyError ''x''))
      | Some x \<Rightarrow>
     (case map_of event ''y'' of
        None \<Rightarrow> (active_sessions, [], Some (KeyError ''y''))
      | Some y \<Rightarrow>
     (case update_mouse_state event_type session_id active_sessions of
        Inl e \<Rightarrow> (active_sessions, [], Some e)
      | Inr sessions' \<Rightarrow>
          (case mouse_dispatch event_type x y session_id sessions' of
             (acts, r) \<Rightarrow> (sessions', MouseMove x y # acts, r))))))"

subsection \<open>handle_keyboard_event\<close>

text \<open>
  The keys of the dictionary \<^verbatim>\<open>special_keys\<close>; every key maps to itself. The list
  \<^verbatim>\<open>modifiers\<close> the function builds is never passed on, so it leaves no trace here.
\<close>

definition special_keys :: "string list" where
  "special_keys =
     [''Backspace'', ''Enter'', ''Tab'', ''Escape'', ''ArrowLeft'', ''ArrowRight'',
      ''ArrowUp'', ''ArrowDown'', ''Delete'', ''Home'', ''End'', ''PageUp'', ''PageDown'']"

text \<open>
  Lines 110 to 140. A key that is not a string raises \<^verbatim>\<open>TypeError\<close>: a list or an
  object is unhashable at \<^verbatim>\<open>key in special_keys\<close>, anything else has no \<^verbatim>\<open>len\<close>.
\<close>

definition keydown_dispatch :: "json \<Rightarrow> action list \<times> error option" where
  "keydown_dispatch key =
     (case key of
        JStr k \<Rightarrow>
          (if k \<in> set special_keys then ([KeyboardPress k], None)
           else if length k = 1 then ([KeyboardType k], None)
           else if k = ''F5'' then ([Reload], None)
           else ([PrintUnhandledKey k], None))
      | _ \<Rightarrow> ([], Some TypeError))"

definition handle_keyboard_event :: "dict \<Rightarrow> action list \<times> error option" where
  "handle_keyboard_event event =
     (case map_of event ''eventType'' of
        None \<Rightarrow> ([], Some (KeyError ''eventType''))
      | Some event_type \<Rightarrow>
     (case map_of event ''key'' of
        None \<Rightarrow> ([], Some (KeyError ''key''))
      | Some key \<Rightarrow>
          (if event_type = JStr ''keydown'' then
             (case keydown_dispatch key of (acts, r) \<Rightarrow> (BringToFront # acts, r))
           else ([BringToFront], None))))"

subsection \<open>Scroll, navigation and the receive loop\<close>

definition handle_scroll_event :: "dict \<Rightarrow> action list \<times> error option" where
  "handle_scroll_event event =
     (let delta_x = (case map_of event ''deltaX'' of None \<Rightarrow> JNum 0 | Some v \<Rightarrow> v);
          delta_y = (case map_of event ''deltaY'' of None \<Rightarrow> JNum 0 | Some v \<Rightarrow> v)
      in ([MouseWheel delta_x delta_y], None))"

definition handle_navigation_event :: "dict \<Rightarrow> action list \<times> error option" where
  "handle_navigation_event event =
     (case map_of event ''url'' of
        None \<Rightarrow> ([], Some (KeyError ''url''))
      | Some url \<Rightarrow> ([Goto url], None))"

text \<open>
  Lines 203 to 217: one received message. Subscripting a message that is not an
  object raises \<^verbatim>\<open>TypeError\<close>; a message type the chain does not name is ignored.
\<close>

definition dispatch_message ::
  "json \<Rightarrow> string \<Rightarrow> sessions \<Rightarrow> sessions \<times> action list \<times> error option" where
  "dispatch_message message session_id active_sessions =
     (case message of
        JObj m \<Rightarrow>
          (case map_of m ''type'' of
             None \<Rightarrow> (active_sessions, [], Some (KeyError ''type''))
           | Some t \<Rightarrow>
               (if t = JStr ''mouse'' then handle_mouse_event m session_id active_sessions
                else if t = JStr ''keyboard'' then (active_sessions, handle_keyboard_event m)
                else if t = JStr ''scroll'' then (active_sessions, handle_scroll_event m)
                else if t = JStr ''navigation'' then
                  (active_sessions, handle_navigation_event m)
                else if t = JStr ''resize'' then
                  (case map_of m ''width'' of
                     None \<Rightarrow> (active_sessions, [], Some (KeyError ''width''))
                   | Some w \<Rightarrow>
                       (case map_of m ''height'' of
                          None \<Rightarrow> (active_sessions, [], Some (KeyError ''height''))
                        | Some h \<Rightarrow> (active_sessions, [SetViewportSize w h], None)))
                else (active_sessions, [], None)))
      | _ \<Rightarrow> (active_sessions, [], Some TypeError))"

text \<open>
  The \<^verbatim>\<open>while True\<close> loop of \<^verbatim>\<open>websocket_endpoint\<close> over the messages received so
  far. An exception leaves the loop: the remaining messages are not processed.
\<close>

fun receive_loop ::
  "json list \<Rightarrow> string \<Rightarrow> sessions \<Rightarrow> sessions \<times> action list \<times> error option" where
  "receive_loop [] session_id active_sessions = (active_sessions, [], None)"
| "receive_loop (message # rest) session_id active_sessions =
     (case dispatch_message message session_id active_sessions of
        (sessions', acts, Some e) \<Rightarrow> (sessions', acts, Some e)
      | (sessions', acts, None) \<Rightarrow>
          (case receive_loop rest session_id sessions' of
             (sessions'', acts', r) \<Rightarrow> (sessions'', acts @ acts', r)))"

subsection \<open>The frame loop: send_screenshots\<close>

text \<open>
  A \<^verbatim>\<open>while\<close> loop is run over what its environment delivers, one element per
  iteration. An iteration either goes on to the next one or leaves the loop
  (\<^verbatim>\<open>break\<close>, or a loop condition that fails); \<open>Continue\<close> for the whole run means
  the loop is still running when the deliveries end.
\<close>

datatype 'a step = Continue 'a | Break 'a

fun run_loop ::
  "('e \<Rightarrow> 's \<Rightarrow> ('s \<times> 'o list) step) \<Rightarrow> 'e list \<Rightarrow> 's \<Rightarrow> ('s \<times> 'o list) step" where
  "run_loop body [] st = Continue (st, [])"
| "run_loop body (e # es) st =
     (case body e st of
        Break r \<Rightarrow> Break r
      | Continue (st', out) \<Rightarrow>
          (case run_loop body es st' of
             Continue (st'', out') \<Rightarrow> Continue (st'', out @ out')
           | Break (st'', out') \<Rightarrow> Break (st'', out @ out')))"

fun outcome :: "('s \<times> 'o list) step \<Rightarrow> 's \<times> 'o list" where
  "outcome (Continue r) = r"
| "outcome (Break r) = r"

fun is_break :: "'a step \<Rightarrow> bool" where
  "is_break (Break r) = True"
| "is_break (Continue r) = False"

text \<open>
  What one iteration of \<^verbatim>\<open>send_screenshots\<close> meets: the bytes \<^verbatim>\<open>page.screenshot\<close>
  returns (\<open>None\<close> when the call raises) and whether \<^verbatim>\<open>websocket.send_json\<close>
  would return (\<open>False\<close> when it raises, the client being gone).
\<close>

type_synonym bytes = "char list"

datatype tick = Tick (shot: "bytes option") (send_ok: bool)

definition screenshot_data :: "string \<Rightarrow> string" where
  "screenshot_data base64_image = ''data:image/jpeg;base64,'' @ base64_image"

text \<open>
  Lines 178 to 195, with \<^verbatim>\<open>base64.b64encode(...).decode("utf-8")\<close> as the parameter
  \<open>b64encode\<close>. Every exception inside the \<^verbatim>\<open>try\<close> is printed and breaks the loop.
\<close>

definition send_screenshots_iter ::
  "(bytes \<Rightarrow> string) \<Rightarrow> string \<Rightarrow> tick \<Rightarrow> sessions \<Rightarrow> (sessions \<times> action list) step" where
  "send_screenshots_iter b64encode session_id tick active_sessions =
     (case shot tick of
        None \<Rightarrow> Break (active_sessions, [PrintError])
      | Some screenshot \<Rightarrow>
          (let base64_image = b64encode screenshot in
           (case active_sessions session_id of
              None \<Rightarrow> Break (active_sessions, [PrintError])
            | Some s \<Rightarrow>
                (if Some base64_image \<noteq> last_screenshot s then
                   (if send_ok tick then
                      Continue
                        (active_sessions
                           (session_id \<mapsto> s\<lparr>last_screenshot := Some base64_image\<rparr>),
                         [SendScreenshot (screenshot_data base64_image), Sleep (1 / 1000)])
                    else Break (active_sessions, [PrintError]))
                 else Continue (active_sessions, [Sleep (1 / 1000)])))))"

definition send_screenshots ::
  "(bytes \<Rightarrow> string) \<Rightarrow> string \<Rightarrow> tick list \<Rightarrow> sessions \<Rightarrow> (sessions \<times> action list) step" where
  "send_screenshots b64encode session_id ticks active_sessions =
     run_loop (send_screenshots_iter b64encode session_id) ticks active_sessions"

text \<open>
  Lines 159 to 173: the session is looked up or started, and the first screenshot is
  sent without being compared or recorded.
\<close>

definition websocket_endpoint_open ::
  "(bytes \<Rightarrow> string) \<Rightarrow> string \<Rightarrow> tick \<Rightarrow> sessions \<Rightarrow> (sessions \<times> action list) step" where
  "websocket_endpoint_open b64encode session_id tick active_sessions =
     (let sessions' =
            (if session_id \<in> dom active_sessions then active_sessions
             else start_browser_session session_id active_sessions)
      in (case shot tick of
            None \<Rightarrow> Break (sessions', [PrintError])
          | Some screenshot \<Rightarrow>
              (if send_ok tick then
                 Continue (sessions', [SendScreenshot (screenshot_data (b64encode screenshot))])
               else Break (sessions', [PrintError]))))"

text \<open>The frames sent and the sleeps requested, read off a trace.\<close>

fun sent_frames :: "action list \<Rightarrow> string list" where
  "sent_frames [] = []"
| "sent_frames (SendScreenshot d # out) = d # sent_frames out"
| "sent_frames (a # out) = sent_frames out"

fun sleeps :: "action list \<Rightarrow> rat list" where
  "sleeps [] = []"
| "sleeps (Sleep d # out) = d # sleeps out"
| "sleeps (a # out) = sleeps out"

text \<open>
  The pacing rule in the specification's words: the sleep of an iteration whose
  capture took \<open>elapsed\<close>, for a target interval.
\<close>

definition paced_sleep :: "rat \<Rightarrow> rat \<Rightarrow> rat" where
  "paced_sleep target_interval elapsed = max 0 (target_interval - elapsed)"

section \<open>The desktop shell's navigation (GUI-Playwright.py)\<close>

text \<open>
  \<^verbatim>\<open>AsyncBrowserManager.navigate_to\<close>, lines 56 to 75: the signals emitted and the
  URL passed to \<^verbatim>\<open>page.goto\<close>; \<open>goto_ok\<close> is whether that call returns.
\<close>

datatype gui_signal =
    StatusNotStarted
  | StatusLoading string
  | StatusLoadFailed
  | ProgressUpdate nat
  | PageGoto string

definition startswith :: "string \<Rightarrow> string \<Rightarrow> bool" where
  "startswith s p = (take (length p) s = p)"

definition navigate_to :: "bool \<Rightarrow> bool \<Rightarrow> bool \<Rightarrow> string \<Rightarrow> gui_signal list" where
  "navigate_to has_page is_running goto_ok url =
     (if \<not> has_page then [StatusNotStarted]
      else if \<not> is_running then [StatusNotStarted]
      else
        (let url' = (if \<not> (startswith url ''http://'' \<or> startswith url ''https://'')
                     then ''https://'' @ url else url)
         in [StatusLoading url', ProgressUpdate 30, PageGoto url'] @
            (if goto_ok then [ProgressUpdate 80] else [StatusLoadFailed, ProgressUpdate 0])))"

section \<open>The real-time transport (request_listen.py)\<close>

subsection \<open>Image arrays\<close>

text \<open>
  The NumPy arrays the track handles are colour images of three dimensions, rows by
  columns by channels. An array is kept as the expression that built it, so that its
  shape can be computed and its content stays recognisable; the pixels of a decoded
  screenshot are an opaque payload. The OpenCV and PyAV calls are modelled by what
  they promise on such arrays: \<^verbatim>\<open>cv2.resize(src, (w, h))\<close> returns \<open>h\<close> rows and
  \<open>w\<close> columns with the channels of \<open>src\<close> and fails on an empty image,
  \<^verbatim>\<open>cv2.cvtColor(src, COLOR_RGBA2RGB)\<close> needs four channels and returns three, and
  \<^verbatim>\<open>VideoFrame.from_ndarray(a, format="rgb24")\<close> needs three channels.
\<close>

datatype font = FONT_HERSHEY_SIMPLEX

datatype ndarray =
    Zeros nat nat nat
  | FromImage nat nat nat nat
  | CvtColorRGBA2RGB ndarray
  | Resize ndarray nat nat
  | PutText ndarray string "nat \<times> nat" font nat "nat \<times> nat \<times> nat" nat

fun shape :: "ndarray \<Rightarrow> nat \<times> nat \<times> nat" where
  "shape (Zeros r c ch) = (r, c, ch)"
| "shape (FromImage r c ch px) = (r, c, ch)"
| "shape (CvtColorRGBA2RGB a) = (case shape a of (r, c, ch) \<Rightarrow> (r, c, 3))"
| "shape (Resize a w h) = (case shape a of (r, c, ch) \<Rightarrow> (h, w, ch))"
| "shape (PutText a txt org fnt scale color thickness) = shape a"

definition cvtColor_RGBA2RGB :: "ndarray \<Rightarrow> error + ndarray" where
  "cvtColor_RGBA2RGB src =
     (case shape src of
        (r, c, ch) \<Rightarrow>
          (if 0 < r \<and> 0 < c \<and> ch = 4 then Inr (CvtColorRGBA2RGB src) else Inl ExternalError))"

definition resize :: "ndarray \<Rightarrow> nat \<times> nat \<Rightarrow> error + ndarray" where
  "resize src dsize =
     (case shape src of
        (r, c, ch) \<Rightarrow>
          (if 0 < r \<and> 0 < c \<and> 0 < ch \<and> 0 < fst dsize \<and> 0 < snd dsize
           then Inr (Resize src (fst dsize) (snd dsize)) else Inl ExternalError))"

subsection \<open>BrowserTrack\<close>

record browser_track =
  frame :: "ndarray option"
  running :: bool

definition BrowserTrack :: browser_track where
  "BrowserTrack = \<lparr>frame = None, running = True\<rparr>"

text \<open>
  What one iteration of \<^verbatim>\<open>capture_frames\<close> meets: \<^verbatim>\<open>page.screenshot\<close> raises, or
  returns a payload that \<^verbatim>\<open>Image.open\<close> rejects, or returns an image that decodes to
  an array of the given rows, columns and channels.
\<close>

datatype capture =
    ScreenshotRaises
  | Undecodable
  | Decoded nat nat nat nat

text \<open>Lines 59 to 64, the body of the \<^verbatim>\<open>try\<close>: the frame, or the exception.\<close>

definition capture_try :: "capture \<Rightarrow> error + ndarray" where
  "capture_try cap =
     (case cap of
        ScreenshotRaises \<Rightarrow> Inl ExternalError
      | Undecodable \<Rightarrow> Inl ExternalError
      | Decoded r c ch px \<Rightarrow>
          (case (if ch = 4 then cvtColor_RGBA2RGB (FromImage r c ch px)
                 else Inr (FromImage r c ch px)) of
             Inl e \<Rightarrow> Inl e
           | Inr converted \<Rightarrow> resize converted (1280, 720)))"

text \<open>Lines 67 to 69: the frame the \<^verbatim>\<open>except\<close> branch stores.\<close>

definition capture_error_frame :: ndarray where
  "capture_error_frame =
     PutText (Zeros 720 1280 3) ''Capture Error'' (50, 360) FONT_HERSHEY_SIMPLEX 2
       (0, 0, 255) 3"

text \<open>Lines 57 to 70: the loop condition and one iteration.\<close>

definition capture_frames_iter ::
  "capture \<Rightarrow> browser_track \<Rightarrow> (browser_track \<times> action list) step" where
  "capture_frames_iter cap track =
     (if \<not> running track then Break (track, [])
      else
        (case capture_try cap of
           Inr resized \<Rightarrow> Continue (track\<lparr>frame := Some resized\<rparr>, [Sleep (3 / 100)])
         | Inl e \<Rightarrow>
             Continue (track\<lparr>frame := Some capture_error_frame\<rparr>,
                       [PrintError, Sleep (3 / 100)])))"

definition capture_frames ::
  "capture list \<Rightarrow> browser_track \<Rightarrow> (browser_track \<times> action list) step" where
  "capture_frames caps track = run_loop capture_frames_iter caps track"

text \<open>
  Line 46 derives the class from \<^verbatim>\<open>MediaStreamTrack\<close>. Of the track classes of the
  media library (\<^verbatim>\<open>aiortc.mediastreams\<close>, which is not part of the repository) only
  \<^verbatim>\<open>VideoStreamTrack\<close> defines \<^verbatim>\<open>next_timestamp\<close>, and the repository defines it
  nowhere; on an object of any other class the attribute access raises
  \<^verbatim>\<open>AttributeError\<close>.
\<close>

datatype track_class = MediaStreamTrack | VideoStreamTrack

definition has_next_timestamp :: "track_class \<Rightarrow> bool" where
  "has_next_timestamp cls = (cls = VideoStreamTrack)"

definition BrowserTrack_base :: track_class where
  "BrowserTrack_base = MediaStreamTrack"

text \<open>
  Lines 72 to 79. Line 73 awaits \<^verbatim>\<open>self.next_timestamp()\<close> outside any \<^verbatim>\<open>try\<close>;
  \<open>stamp\<close> is what that call would return on a class that has it.
  \<^verbatim>\<open>from_ndarray\<close> raises on an array that is not of three channels.
\<close>

record video_frame =
  width :: nat
  height :: nat
  pix_fmt :: string
  image :: ndarray
  pts :: int
  time_base :: rat

definition recv :: "int \<times> rat \<Rightarrow> browser_track \<Rightarrow> error + video_frame" where
  "recv stamp track =
     (if has_next_timestamp BrowserTrack_base then
        (let arr = (case frame track of Some f \<Rightarrow> f | None \<Rightarrow> Zeros 720 1280 3)
         in (case shape arr of
               (r, c, ch) \<Rightarrow>
                 (if ch = 3 then
                    Inr \<lparr>width = c, height = r, pix_fmt = ''rgb24'', image = arr,
                         pts = fst stamp, time_base = snd stamp\<rparr>
                  else Inl (ValueError ''from_ndarray''))))
      else Inl AttributeError)"

subsection \<open>Signalling: websocket_offer\<close>

text \<open>
  What \<^verbatim>\<open>websocket.receive_text\<close> followed by \<^verbatim>\<open>json.loads\<close> delivers: the peer has
  gone, the text is not JSON, or a value.
\<close>

datatype inbound =
    Disconnected
  | InvalidJson
  | Received json

record session_description =
  sdp :: json
  sd_type :: json

text \<open>
  Lines 118 to 128. \<^verbatim>\<open>offer.get\<close> at line 120 raises \<^verbatim>\<open>AttributeError\<close> on a value
  that is not an object, before the format check is reached.
\<close>

definition receive_offer :: "inbound \<Rightarrow> error + session_description" where
  "receive_offer msg =
     (case msg of
        Disconnected \<Rightarrow> Inl ExternalError
      | InvalidJson \<Rightarrow> Inl (ValueError ''json'')
      | Received offer \<Rightarrow>
          (case offer of
             JObj d \<Rightarrow>
               (if map_of d ''sdp'' = None \<or> map_of d ''type'' = None
                then Inl (ValueError ''offer format'')
                else if the (map_of d ''sdp'') = JNull
                        \<or> the (map_of d ''type'') \<noteq> JStr ''offer''
                then Inl (ValueError ''offer data'')
                else Inr \<lparr>sdp = the (map_of d ''sdp''), sd_type = the (map_of d ''type'')\<rparr>)
           | _ \<Rightarrow> Inl AttributeError))"

text \<open>
  The dataclass \<^verbatim>\<open>RTCIceCandidate\<close> of the media library
  (\<^verbatim>\<open>aiortc.rtcicetransport\<close>, which is not part of the repository): seven fields
  without a default and five that default to \<^verbatim>\<open>None\<close>. Its constructor raises
  \<^verbatim>\<open>TypeError\<close> on a keyword that is not a field and on a field without default that
  is not given. An object is kept as the keyword arguments it was built from.
\<close>

definition RTCIceCandidate_required :: "string list" where
  "RTCIceCandidate_required =
     [''component'', ''foundation'', ''ip'', ''port'', ''priority'', ''protocol'', ''type'']"

definition RTCIceCandidate_optional :: "string list" where
  "RTCIceCandidate_optional =
     [''relatedAddress'', ''relatedPort'', ''sdpMid'', ''sdpMLineIndex'', ''tcpType'']"

type_synonym ice_candidate = dict

definition RTCIceCandidate :: "dict \<Rightarrow> error + ice_candidate" where
  "RTCIceCandidate kwargs =
     (if list_all (\<lambda>k. k \<in> set (RTCIceCandidate_required @ RTCIceCandidate_optional))
           (map fst kwargs)
         \<and> list_all (\<lambda>k. map_of kwargs k \<noteq> None) RTCIceCandidate_required
      then Inr kwargs else Inl TypeError)"

datatype signal =
    SendAnswer string string
  | AddIceCandidate ice_candidate
  | IgnoreNullCandidate
  | CandidateNotDict
  | CandidateMissingFields
  | CreateCandidateFailed
  | MessageError
  | ClientDisconnected
  | WebSocketError error
  | Cleanup

text \<open>
  Lines 158 to 194, one message after the answer. The state is the list of candidates
  the peer connection has taken. Lines 178 to 182 call the constructor with the
  keywords \<^verbatim>\<open>candidate\<close>, \<^verbatim>\<open>sdpMid\<close> and \<^verbatim>\<open>sdpMLineIndex\<close>, where
  \<^verbatim>\<open>.get("sdpMLineIndex")\<close> gives \<^verbatim>\<open>None\<close>, here \<open>JNull\<close>, when the key is absent;
  \<open>add_ice\<close> tells whether \<^verbatim>\<open>pc.addIceCandidate\<close> returns. Both calls are guarded by
  the \<^verbatim>\<open>try\<close> of line 177. \<^verbatim>\<open>data.keys()\<close> at line 161 raises on a value that is
  not an object, which the handler of line 192 turns into \<^verbatim>\<open>break\<close>.
\<close>

definition candidate_iter ::
  "(ice_candidate \<Rightarrow> bool) \<Rightarrow> inbound \<Rightarrow> ice_candidate list \<Rightarrow>
     (ice_candidate list \<times> signal list) step" where
  "candidate_iter add_ice msg pc =
     (case msg of
        Disconnected \<Rightarrow> Break (pc, [ClientDisconnected])
      | InvalidJson \<Rightarrow> Break (pc, [MessageError])
      | Received data \<Rightarrow>
          (case data of
             JObj d \<Rightarrow>
               (case map_of d ''candidate'' of
                  None \<Rightarrow> Continue (pc, [])
                | Some candidate_data \<Rightarrow>
                    (case candidate_data of
                       JNull \<Rightarrow> Continue (pc, [IgnoreNullCandidate])
                     | JObj c \<Rightarrow>
                         (if map_of c ''candidate'' = None \<or> map_of c ''sdpMid'' = None
                          then Continue (pc, [CandidateMissingFields])
                          else
                            (case RTCIceCandidate
                                    [(''candidate'', the (map_of c ''candidate'')),
                                     (''sdpMid'', the (map_of c ''sdpMid'')),
                                     (''sdpMLineIndex'',
                                      (case map_of c ''sdpMLineIndex'' of
                                         None \<Rightarrow> JNull | Some v \<Rightarrow> v))] of
                               Inl e \<Rightarrow> Continue (pc, [CreateCandidateFailed])
                             | Inr ice \<Rightarrow>
                                 (if add_ice ice
                                  then Continue (pc @ [ice], [AddIceCandidate ice])
                                  else Continue (pc, [CreateCandidateFailed]))))
                     | _ \<Rightarrow> Continue (pc, [CandidateNotDict])))
           | _ \<Rightarrow> Break (pc, [MessageError])))"

text \<open>
  The local description the peer connection holds after lines 131 to 140, as far as
  the code inspects it.
\<close>

datatype local_description = LocalDescription (ld_sdp: "string option") (ld_type: string)

datatype connection = Open "ice_candidate list" | Closed

text \<open>
  The whole handler over the first message and those received after it. \<open>answer\<close> is
  the outcome of lines 131 to 140 for a validated offer: an exception, no local
  description, or one. Every exception reaches the handler of line 196 and the
  \<^verbatim>\<open>finally\<close> block; so does leaving the candidate loop.
\<close>

definition websocket_offer ::
  "(session_description \<Rightarrow> error + local_description option) \<Rightarrow> (ice_candidate \<Rightarrow> bool) \<Rightarrow>
     inbound \<Rightarrow> inbound list \<Rightarrow> signal list \<times> connection" where
  "websocket_offer answer add_ice first rest =
     (case receive_offer first of
        Inl e \<Rightarrow> ([WebSocketError e, Cleanup], Closed)
      | Inr offer_sdp \<Rightarrow>
          (case answer offer_sdp of
             Inl e \<Rightarrow> ([WebSocketError e, Cleanup], Closed)
           | Inr None \<Rightarrow> ([WebSocketError (RuntimeError ''localDescription''), Cleanup], Closed)
           | Inr (Some ld) \<Rightarrow>
               (case ld_sdp ld of
                  None \<Rightarrow> ([WebSocketError (RuntimeError ''localDescription.sdp''), Cleanup], Closed)
                | Some s \<Rightarrow>
                    (case run_loop (candidate_iter add_ice) rest [] of
                       Continue (pc, out) \<Rightarrow> (SendAnswer s (ld_type ld) # out, Open pc)
                     | Break (pc, out) \<Rightarrow> (SendAnswer s (ld_type ld) # out @ [Cleanup], Closed)))))"

section \<open>Notions used to state the properties\<close>

text \<open>
  The event type of a well-formed pointer message (type \<^verbatim>\<open>mouse\<close>, with
  \<^verbatim>\<open>eventType\<close>, \<^verbatim>\<open>x\<close> and \<^verbatim>\<open>y\<close>), and the down-class and up-class events among
  the event types of a sequence of messages, in arrival order.
\<close>

definition mouse_event_type :: "json \<Rightarrow> json option" where
  "mouse_event_type message =
     (case message of
        JObj m \<Rightarrow>
          (if map_of m ''type'' = Some (JStr ''mouse'') \<and> map_of m ''x'' \<noteq> None
              \<and> map_of m ''y'' \<noteq> None
           then map_of m ''eventType'' else None)
      | _ \<Rightarrow> None)"

definition is_button_event :: "json \<Rightarrow> bool" where
  "is_button_event t = (t \<in> set [JStr ''mousedown'', JStr ''mouseup'', JStr ''dblclick''])"

definition button_events :: "json list \<Rightarrow> json list" where
  "button_events messages = filter is_button_event (List.map_filter mouse_event_type messages)"

text \<open>
  The offer and the candidate the specification accepts: a mapping with a non-null
  \<^verbatim>\<open>sdp\<close> and the type \<^verbatim>\<open>offer\<close>; a mapping with \<^verbatim>\<open>candidate\<close> and \<^verbatim>\<open>sdpMid\<close>.
\<close>

definition well_formed_offer :: "json \<Rightarrow> bool" where
  "well_formed_offer payload =
     (case payload of
        JObj d \<Rightarrow>
          (case map_of d ''sdp'' of None \<Rightarrow> False | Some v \<Rightarrow> v \<noteq> JNull)
          \<and> map_of d ''type'' = Some (JStr ''offer'')
      | _ \<Rightarrow> False)"

definition well_formed_candidate :: "json \<Rightarrow> bool" where
  "well_formed_candidate candidate_data =
     (case candidate_data of
        JObj c \<Rightarrow> map_of c ''candidate'' \<noteq> None \<and> map_of c ''sdpMid'' \<noteq> None
      | _ \<Rightarrow> False)"

section \<open>Auxiliary facts\<close>

lemma sent_frames_append: "sent_frames (xs @ ys) = sent_frames xs @ sent_frames ys"
  by (induction xs rule: sent_frames.induct) simp_all

lemma sleeps_append: "sleeps (xs @ ys) = sleeps xs @ sleeps ys"
  by (induction xs rule: sleeps.induct) simp_all

lemma screenshot_data_inj: "screenshot_data a = screenshot_data b \<longleftrightarrow> a = b"
  by (simp add: screenshot_data_def)

lemma run_loop_Cons_Continue:
  "body e st = Continue (st', out) \<Longrightarrow>
   outcome (run_loop body (e # es) st) =
     (fst (outcome (run_loop body es st')), out @ snd (outcome (run_loop body es st')))"
  by (cases "run_loop body es st'") auto

lemma dispatch_mouse_message:
  assumes "mouse_event_type m = Some t" and "S sid = Some s"
  shows "\<exists>acts. dispatch_message m sid S =
           (S(sid \<mapsto> s\<lparr>mouse_down := (if is_button_event t then t = JStr ''mousedown''
                                         else mouse_down s)\<rparr>), acts, None)"
  using assms
  by (auto simp: mouse_event_type_def dispatch_message_def handle_mouse_event_def
        update_mouse_state_def mouse_dispatch_def is_button_event_def map_upd_triv
      split: json.splits if_splits option.splits)

lemma button_events_Cons:
  "mouse_event_type m = Some t \<Longrightarrow>
   button_events (m # ms) = (if is_button_event t then t # button_events ms else button_events ms)"
  by (simp add: button_events_def List.map_filter_simps)

lemma send_iter_cases:
  "send_screenshots_iter b sid tick S =
     (case (shot tick, S sid) of
        (Some bs, Some s) \<Rightarrow>
          (if Some (b bs) \<noteq> last_screenshot s then
             (if send_ok tick then
                Continue (S(sid \<mapsto> s\<lparr>last_screenshot := Some (b bs)\<rparr>),
                          [SendScreenshot (screenshot_data (b bs)), Sleep (1 / 1000)])
              else Break (S, [PrintError]))
           else Continue (S, [Sleep (1 / 1000)]))
      | _ \<Rightarrow> Break (S, [PrintError]))"
  by (simp add: send_screenshots_iter_def Let_def split: option.splits)

lemma send_screenshots_invariant:
  "distinct_adj (sent_frames (snd (outcome (send_screenshots b sid ticks S)))) \<and>
   (\<forall>s. S sid = Some s \<longrightarrow> sent_frames (snd (outcome (send_screenshots b sid ticks S))) \<noteq> [] \<longrightarrow>
        Some (hd (sent_frames (snd (outcome (send_screenshots b sid ticks S)))))
          \<noteq> map_option screenshot_data (last_screenshot s))"
proof (induction ticks arbitrary: S)
  case Nil
  then show ?case by (simp add: send_screenshots_def)
next
  case (Cons tick ticks)
  show ?case
  proof (cases "send_screenshots_iter b sid tick S")
    case (Break r)
    then have "r = (S, [PrintError])"
      by (auto simp: send_iter_cases split: option.splits if_splits)
    with Break show ?thesis by (simp add: send_screenshots_def)
  next
    case (Continue r)
    obtain S' out where r: "r = (S', out)" by (cases r)
    from Continue r have o: "outcome (send_screenshots b sid (tick # ticks) S) =
       (fst (outcome (send_screenshots b sid ticks S')),
        out @ snd (outcome (send_screenshots b sid ticks S')))"
      unfolding send_screenshots_def by (intro run_loop_Cons_Continue) simp
    let ?rest = "sent_frames (snd (outcome (send_screenshots b sid ticks S')))"
    from Continue r consider
        (same) "S' = S" "out = [Sleep (1 / 1000)]"
      | (sent) bs s where "S sid = Some s" "Some (b bs) \<noteq> last_screenshot s"
          "S' = S(sid \<mapsto> s\<lparr>last_screenshot := Some (b bs)\<rparr>)"
          "out = [SendScreenshot (screenshot_data (b bs)), Sleep (1 / 1000)]"
      by (auto simp: send_iter_cases split: option.splits if_splits)
    then show ?thesis
    proof cases
      case same
      with Cons.IH[of S] o show ?thesis by (simp add: sent_frames_append)
    next
      case sent
      have S'sid: "S' sid = Some (s\<lparr>last_screenshot := Some (b bs)\<rparr>)"
        using sent(3) by simp
      have ih1: "distinct_adj ?rest"
        using Cons.IH[of S'] by blast
      have "?rest \<noteq> [] \<Longrightarrow> Some (hd ?rest) \<noteq>
              map_option screenshot_data (last_screenshot (s\<lparr>last_screenshot := Some (b bs)\<rparr>))"
        using Cons.IH[of S'] S'sid by blast
      then have ih2: "?rest \<noteq> [] \<Longrightarrow> hd ?rest \<noteq> screenshot_data (b bs)"
        by simp
      have "distinct_adj (screenshot_data (b bs) # ?rest)"
        using ih1 ih2 by (cases ?rest) auto
      moreover have "Some (screenshot_data (b bs)) \<noteq> map_option screenshot_data (last_screenshot s)"
        using sent(2) by (cases "last_screenshot s") (auto simp: screenshot_data_inj)
      ultimately show ?thesis
        using o sent(1,4) by (simp add: sent_frames_append)
    qed
  qed
qed

lemma capture_iter_running:
  "running track \<Longrightarrow> \<exists>f log. capture_frames_iter cap track
       = Continue (track\<lparr>frame := Some f\<rparr>, log @ [Sleep (3 / 100)])
       \<and> sleeps log = []"
  by (auto simp: capture_frames_iter_def split: sum.splits)

lemma capture_frames_never_breaks:
  "running track \<Longrightarrow> \<exists>track' out. capture_frames caps track = Continue (track', out)
       \<and> running track' \<and> length (sleeps out) = length caps"
proof (induction caps arbitrary: track)
  case Nil
  then show ?case by (simp add: capture_frames_def)
next
  case (Cons cap caps)
  from capture_iter_running[OF Cons.prems, of cap] obtain f log where
    it: "capture_frames_iter cap track = Continue (track\<lparr>frame := Some f\<rparr>, log @ [Sleep (3 / 100)])"
    "sleeps log = []" by blast
  have "running (track\<lparr>frame := Some f\<rparr>)" using Cons.prems by simp
  from Cons.IH[OF this] obtain track' out where
    "capture_frames caps (track\<lparr>frame := Some f\<rparr>) = Continue (track', out)"
    "running track'" "length (sleeps out) = length caps" by blast
  with it show ?case
    by (simp add: capture_frames_def sleeps_append)
qed

lemma receive_offer_valid:
  "well_formed_offer payload \<Longrightarrow>
     \<exists>d v. payload = JObj d \<and> map_of d ''sdp'' = Some v \<and> v \<noteq> JNull
        \<and> receive_offer (Received payload) = Inr \<lparr>sdp = v, sd_type = JStr ''offer''\<rparr>"
  by (auto simp: well_formed_offer_def receive_offer_def split: json.splits option.splits)

lemma receive_offer_invalid:
  "\<not> well_formed_offer payload \<Longrightarrow> \<exists>e. receive_offer (Received payload) = Inl e"
  by (auto simp: well_formed_offer_def receive_offer_def split: json.splits option.splits)

lemma candidate_iter_malformed:
  assumes "map_of d ''candidate'' = Some cd" and "\<not> well_formed_candidate cd"
  shows "\<exists>log. candidate_iter add_ice (Received (JObj d)) pc = Continue (pc, [log])
           \<and> log \<in> set [IgnoreNullCandidate, CandidateNotDict, CandidateMissingFields]"
  using assms
  by (auto simp: candidate_iter_def well_formed_candidate_def split: json.splits)

lemma RTCIceCandidate_candidate_keyword:
  "RTCIceCandidate ((''candidate'', v) # kwargs) = Inl TypeError"
  by (simp add: RTCIceCandidate_def RTCIceCandidate_required_def RTCIceCandidate_optional_def)

lemma candidate_iter_well_formed:
  assumes "map_of d ''candidate'' = Some cd" and "well_formed_candidate cd"
  shows "candidate_iter add_ice (Received (JObj d)) pc = Continue (pc, [CreateCandidateFailed])"
  using assms
  by (auto simp: candidate_iter_def well_formed_candidate_def RTCIceCandidate_candidate_keyword
      split: json.splits)

lemma candidate_iter_keeps_candidates:
  "fst (outcome (candidate_iter add_ice msg pc)) = pc"
  by (auto simp: candidate_iter_def RTCIceCandidate_candidate_keyword
      split: inbound.splits json.splits option.splits)

lemma candidate_iter_object_continues:
  "\<exists>pc' log. candidate_iter add_ice (Received (JObj d)) pc = Continue (pc', log)"
  by (auto simp: candidate_iter_def RTCIceCandidate_candidate_keyword
      split: json.splits option.splits)

lemma candidate_loop_continues:
  assumes "\<forall>m \<in> set msgs. \<exists>d. m = Received (JObj d)"
  shows "\<exists>pc' log. run_loop (candidate_iter add_ice) msgs pc = Continue (pc', log)"
  using assms
proof (induction msgs arbitrary: pc)
  case Nil
  then show ?case by simp
next
  case (Cons m msgs)
  then obtain d where m: "m = Received (JObj d)" by auto
  obtain pc1 log1 where s: "candidate_iter add_ice m pc = Continue (pc1, log1)"
    using candidate_iter_object_continues[of add_ice d pc] m by auto
  have "\<forall>m \<in> set msgs. \<exists>d. m = Received (JObj d)" using Cons.prems by simp
  then obtain pc2 log2 where "run_loop (candidate_iter add_ice) msgs pc1 = Continue (pc2, log2)"
    using Cons.IH by blast
  with s show ?case by simp
qed

section \<open>The input translator\<close>

text \<open>
  Claim C1. For every sequence of well-formed pointer messages processed by the
  receive loop for a registered session, no message raises, and the session's
  \<^verbatim>\<open>mouse_down\<close> flag after the sequence is true exactly when the most recent
  down-class or up-class event (\<^verbatim>\<open>mousedown\<close>, \<^verbatim>\<open>mouseup\<close>, \<^verbatim>\<open>dblclick\<close>) was a
  \<^verbatim>\<open>mousedown\<close>; with no such event in the sequence the flag is what it was before
  (false for a session just started). So \<^verbatim>\<open>mouseup\<close> and \<^verbatim>\<open>dblclick\<close> leave it
  false, and \<^verbatim>\<open>mousemove\<close> or any other event type leaves it unchanged. The recorded
  last screenshot is not touched.
\<close>

theorem mouse_down_tracks_last_button_event:
  assumes "\<forall>m \<in> set messages. mouse_event_type m \<noteq> None"
      and "active_sessions session_id = Some s"
  shows "\<exists>sessions' acts s'.
           receive_loop messages session_id active_sessions = (sessions', acts, None)
           \<and> sessions' session_id = Some s'
           \<and> last_screenshot s' = last_screenshot s
           \<and> mouse_down s' =
               (if button_events messages = [] then mouse_down s
                else last (button_events messages) = JStr ''mousedown'')"
  using assms
proof (induction messages arbitrary: active_sessions s)
  case Nil
  then show ?case by (simp add: button_events_def List.map_filter_simps)
next
  case (Cons m ms)
  then obtain t where t: "mouse_event_type m = Some t" by auto
  let ?s1 = "s\<lparr>mouse_down := (if is_button_event t then t = JStr ''mousedown''
                               else mouse_down s)\<rparr>"
  let ?S1 = "active_sessions(session_id \<mapsto> ?s1)"
  from dispatch_mouse_message[of m t active_sessions session_id s] t Cons.prems(2)
  obtain acts where d: "dispatch_message m session_id active_sessions = (?S1, acts, None)"
    by blast
  have "\<forall>m \<in> set ms. mouse_event_type m \<noteq> None" using Cons.prems(1) by simp
  then have "\<exists>S' acts' s'. receive_loop ms session_id ?S1 = (S', acts', None)
      \<and> S' session_id = Some s' \<and> last_screenshot s' = last_screenshot ?s1
      \<and> mouse_down s' = (if button_events ms = [] then mouse_down ?s1
                         else last (button_events ms) = JStr ''mousedown'')"
    by (intro Cons.IH) simp_all
  then obtain S' acts' s' where r: "receive_loop ms session_id ?S1 = (S', acts', None)"
    "S' session_id = Some s'" "last_screenshot s' = last_screenshot ?s1"
    "mouse_down s' = (if button_events ms = [] then mouse_down ?s1
                      else last (button_events ms) = JStr ''mousedown'')"
    by blast
  show ?case
    using d r by (simp add: button_events_Cons[OF t])
qed

text \<open>
  The theorem of claim C1 at a session just started that receives a button release,
  a button press and a move: the flag ends true.
\<close>

theorem mouse_down_tracks_last_button_event_witness:
  "\<exists>sessions' acts s'.
     receive_loop
       [JObj [(''type'', JStr ''mouse''), (''eventType'', JStr ''mouseup''),
              (''x'', JNum 1), (''y'', JNum 2)],
        JObj [(''type'', JStr ''mouse''), (''eventType'', JStr ''mousedown''),
              (''x'', JNum 3), (''y'', JNum 4)],
        JObj [(''type'', JStr ''mouse''), (''eventType'', JStr ''mousemove''),
              (''x'', JNum 5), (''y'', JNum 6)]]
       ''s1'' (start_browser_session ''s1'' Map.empty) = (sessions', acts, None)
     \<and> sessions' ''s1'' = Some s'
     \<and> last_screenshot s' = None
     \<and> mouse_down s' = True"
  using mouse_down_tracks_last_button_event
    [where session_id = "''s1''"
       and active_sessions = "start_browser_session ''s1'' Map.empty"
       and s = "\<lparr>last_screenshot = None, mouse_down = False\<rparr>"
       and messages =
         "[JObj [(''type'', JStr ''mouse''), (''eventType'', JStr ''mouseup''),
                 (''x'', JNum 1), (''y'', JNum 2)],
           JObj [(''type'', JStr ''mouse''), (''eventType'', JStr ''mousedown''),
                 (''x'', JNum 3), (''y'', JNum 4)],
           JObj [(''type'', JStr ''mouse''), (''eventType'', JStr ''mousemove''),
                 (''x'', JNum 5), (''y'', JNum 6)]]"]
  by (simp add: start_browser_session_def mouse_event_type_def button_events_def
        is_button_event_def List.map_filter_simps)

text \<open>
  Claim C7, as stated, fails: a pointer-move processed while \<^verbatim>\<open>mouse_down\<close> is false
  is not without action on the page. In a session just started, the move of line 71
  is issued.
\<close>

theorem pointer_move_unpressed_counterexample:
  "\<not> mouse_down (the (start_browser_session ''s1'' Map.empty ''s1''))
   \<and> fst (snd (handle_mouse_event
         [(''eventType'', JStr ''mousemove''), (''x'', JNum 10), (''y'', JNum 20)]
         ''s1'' (start_browser_session ''s1'' Map.empty)))
       = [MouseMove (JNum 10) (JNum 20)]
   \<and> fst (snd (handle_mouse_event
         [(''eventType'', JStr ''mousemove''), (''x'', JNum 10), (''y'', JNum 20)]
         ''s1'' (start_browser_session ''s1'' Map.empty))) \<noteq> []"
  by (simp add: handle_mouse_event_def update_mouse_state_def mouse_dispatch_def
        start_browser_session_def)

text \<open>
  Claim C7, amended. For every pointer-move event processed while the session's
  \<^verbatim>\<open>mouse_down\<close> flag is false, the input translator issues exactly one call on the
  page, the move to the event's coordinates, raises nothing and leaves the session
  registry unchanged.
\<close>

theorem pointer_move_unpressed_moves_once:
  assumes "map_of event ''eventType'' = Some (JStr ''mousemove'')"
      and "map_of event ''x'' = Some x" and "map_of event ''y'' = Some y"
      and "active_sessions session_id = Some s" and "\<not> mouse_down s"
  shows "handle_mouse_event event session_id active_sessions
           = (active_sessions, [MouseMove x y], None)"
  using assms
  by (simp add: handle_mouse_event_def update_mouse_state_def mouse_dispatch_def)

text \<open>The amended claim C7 at a move to (10, 20) in a session just started.\<close>

theorem pointer_move_unpressed_moves_once_witness:
  "handle_mouse_event
     [(''eventType'', JStr ''mousemove''), (''x'', JNum 10), (''y'', JNum 20)]
     ''s1'' (start_browser_session ''s1'' Map.empty)
   = (start_browser_session ''s1'' Map.empty, [MouseMove (JNum 10) (JNum 20)], None)"
  using pointer_move_unpressed_moves_once
    [where event = "[(''eventType'', JStr ''mousemove''), (''x'', JNum 10), (''y'', JNum 20)]"
       and x = "JNum 10" and y = "JNum 20" and session_id = "''s1''"
       and active_sessions = "start_browser_session ''s1'' Map.empty"
       and s = "\<lparr>last_screenshot = None, mouse_down = False\<rparr>"]
  by (simp add: start_browser_session_def)

text \<open>
  Claim C10. For every keyboard key-down event whose key is \<^verbatim>\<open>F5\<close>, the handler
  brings the page to the front and reloads it: no key press is dispatched, nothing is
  typed and the key is not reported as unhandled. The receive loop does the same for
  a message of type \<^verbatim>\<open>keyboard\<close> and leaves the session registry unchanged.
\<close>

theorem f5_keydown_reloads_page:
  assumes "map_of event ''eventType'' = Some (JStr ''keydown'')"
      and "map_of event ''key'' = Some (JStr ''F5'')"
  shows "handle_keyboard_event event = ([BringToFront, Reload], None)
         \<and> (map_of event ''type'' = Some (JStr ''keyboard'') \<longrightarrow>
              dispatch_message (JObj event) session_id active_sessions
                = (active_sessions, [BringToFront, Reload], None))"
  using assms
  by (simp add: dispatch_message_def handle_keyboard_event_def keydown_dispatch_def
        special_keys_def)

text \<open>The theorem of claim C10 at the message a browser sends for the F5 key.\<close>

theorem f5_keydown_reloads_page_witness:
  "handle_keyboard_event
     [(''type'', JStr ''keyboard''), (''eventType'', JStr ''keydown''),
      (''key'', JStr ''F5''), (''code'', JStr ''F5'')]
     = ([BringToFront, Reload], None)
   \<and> dispatch_message
       (JObj [(''type'', JStr ''keyboard''), (''eventType'', JStr ''keydown''),
              (''key'', JStr ''F5''), (''code'', JStr ''F5'')])
       ''s1'' Map.empty
     = (Map.empty, [BringToFront, Reload], None)"
  using f5_keydown_reloads_page
    [where event = "[(''type'', JStr ''keyboard''), (''eventType'', JStr ''keydown''),
                     (''key'', JStr ''F5''), (''code'', JStr ''F5'')]"
       and session_id = "''s1''" and active_sessions = Map.empty]
  by simp

text \<open>
  Claim C8 does not hold of the code. The navigation message with the URL
  \<^verbatim>\<open>example.com\<close> reaches \<^verbatim>\<open>page.goto\<close> with that URL as received; no scheme is
  put in front. The desktop shell's \<^verbatim>\<open>navigate_to\<close> does put \<^verbatim>\<open>https://\<close> in front of
  the same URL.
\<close>

theorem navigation_url_passed_as_received:
  "dispatch_message
     (JObj [(''type'', JStr ''navigation''), (''url'', JStr ''example.com'')])
     ''s1'' Map.empty
     = (Map.empty, [Goto (JStr ''example.com'')], None)
   \<and> navigate_to True True True ''example.com''
     = [StatusLoading ''https://example.com'', ProgressUpdate 30,
        PageGoto ''https://example.com'', ProgressUpdate 80]"
  by (simp add: dispatch_message_def handle_navigation_event_def navigate_to_def
        startswith_def Let_def)

section \<open>The frame loops\<close>

text \<open>
  Claim C2. Whatever the captures deliver and whatever the session registry holds,
  the frames \<^verbatim>\<open>send_screenshots\<close> sends never contain two consecutive identical
  ones. In an iteration whose screenshot and send both return, for a registered
  session, the frame is sent exactly when its base64 text differs from the session's
  \<^verbatim>\<open>last_screenshot\<close>, and is then recorded there; otherwise nothing is sent and
  nothing changes. In a session just started the first frame the loop captures is
  sent, and the screenshot \<^verbatim>\<open>websocket_endpoint\<close> takes on opening the connection is
  sent without any comparison.
\<close>

theorem frame_loop_sends_changed_frames_only:
  "distinct_adj
     (sent_frames (snd (outcome (send_screenshots b64encode session_id ticks active_sessions))))
   \<and> (active_sessions session_id = Some s \<longrightarrow>
        \<not> is_break (send_screenshots_iter b64encode session_id (Tick (Some bs) True)
                       active_sessions)
        \<and> sent_frames (snd (outcome (send_screenshots_iter b64encode session_id
                                       (Tick (Some bs) True) active_sessions)))
            = (if Some (b64encode bs) \<noteq> last_screenshot s
               then [screenshot_data (b64encode bs)] else [])
        \<and> fst (outcome (send_screenshots_iter b64encode session_id
                          (Tick (Some bs) True) active_sessions))
            = (if Some (b64encode bs) \<noteq> last_screenshot s
               then active_sessions
                      (session_id \<mapsto> s\<lparr>last_screenshot := Some (b64encode bs)\<rparr>)
               else active_sessions))
   \<and> (\<exists>later.
         sent_frames (snd (outcome (send_screenshots b64encode session_id
                                      (Tick (Some bs) True # ticks)
                                      (start_browser_session session_id active_sessions))))
           = screenshot_data (b64encode bs) # later)
   \<and> websocket_endpoint_open b64encode session_id (Tick (Some bs) True) active_sessions
       = Continue
           (if session_id \<in> dom active_sessions then active_sessions
            else start_browser_session session_id active_sessions,
            [SendScreenshot (screenshot_data (b64encode bs))])"
proof (intro conjI impI)
  show "distinct_adj
     (sent_frames (snd (outcome (send_screenshots b64encode session_id ticks active_sessions))))"
    using send_screenshots_invariant[of b64encode session_id ticks active_sessions] by blast
next
  assume s: "active_sessions session_id = Some s"
  let ?it = "send_screenshots_iter b64encode session_id (Tick (Some bs) True) active_sessions"
  show "\<not> is_break ?it"
    using s by (simp add: send_iter_cases)
  show "sent_frames (snd (outcome ?it))
            = (if Some (b64encode bs) \<noteq> last_screenshot s
               then [screenshot_data (b64encode bs)] else [])"
    using s by (simp add: send_iter_cases)
  show "fst (outcome ?it)
            = (if Some (b64encode bs) \<noteq> last_screenshot s
               then active_sessions
                      (session_id \<mapsto> s\<lparr>last_screenshot := Some (b64encode bs)\<rparr>)
               else active_sessions)"
    using s by (simp add: send_iter_cases)
next
  let ?S0 = "start_browser_session session_id active_sessions"
  let ?S1 = "?S0(session_id \<mapsto> \<lparr>last_screenshot = Some (b64encode bs), mouse_down = False\<rparr>)"
  have "send_screenshots_iter b64encode session_id (Tick (Some bs) True) ?S0
          = Continue (?S1, [SendScreenshot (screenshot_data (b64encode bs)), Sleep (1 / 1000)])"
    by (simp add: send_iter_cases start_browser_session_def)
  then have "outcome (send_screenshots b64encode session_id (Tick (Some bs) True # ticks) ?S0)
          = (fst (outcome (send_screenshots b64encode session_id ticks ?S1)),
             [SendScreenshot (screenshot_data (b64encode bs)), Sleep (1 / 1000)]
               @ snd (outcome (send_screenshots b64encode session_id ticks ?S1)))"
    unfolding send_screenshots_def by (rule run_loop_Cons_Continue)
  then show "\<exists>later.
         sent_frames (snd (outcome (send_screenshots b64encode session_id
                                      (Tick (Some bs) True # ticks) ?S0)))
           = screenshot_data (b64encode bs) # later"
    by simp
next
  show "websocket_endpoint_open b64encode session_id (Tick (Some bs) True) active_sessions
       = Continue
           (if session_id \<in> dom active_sessions then active_sessions
            else start_browser_session session_id active_sessions,
            [SendScreenshot (screenshot_data (b64encode bs))])"
    by (simp add: websocket_endpoint_open_def Let_def)
qed

text \<open>
  The theorem of claim C2 at a session just started whose page shows the frame
  \<^verbatim>\<open>A\<close> twice and then the frame \<^verbatim>\<open>B\<close>: the second \<^verbatim>\<open>A\<close> is not sent.
\<close>

theorem frame_loop_sends_changed_frames_only_witness:
  "sent_frames (snd (outcome (send_screenshots id ''s1''
       [Tick (Some ''A'') True, Tick (Some ''A'') True, Tick (Some ''B'') True]
       (start_browser_session ''s1'' Map.empty))))
     = [screenshot_data ''A'', screenshot_data ''B'']
   \<and> distinct_adj (sent_frames (snd (outcome (send_screenshots id ''s1''
       [Tick (Some ''A'') True, Tick (Some ''A'') True, Tick (Some ''B'') True]
       (start_browser_session ''s1'' Map.empty)))))
   \<and> start_browser_session ''s1'' Map.empty ''s1''
       = Some \<lparr>last_screenshot = None, mouse_down = False\<rparr>
   \<and> sent_frames (snd (outcome (send_screenshots_iter id ''s1'' (Tick (Some ''A'') True)
       (start_browser_session ''s1'' Map.empty)))) = [screenshot_data ''A'']"
  using frame_loop_sends_changed_frames_only
    [where ?b64encode = id and session_id = "''s1''"
       and ticks = "[Tick (Some ''A'') True, Tick (Some ''A'') True, Tick (Some ''B'') True]"
       and active_sessions = "start_browser_session ''s1'' Map.empty"
       and s = "\<lparr>last_screenshot = None, mouse_down = False\<rparr>" and bs = "''A''"]
  by (simp add: start_browser_session_def send_screenshots_def send_iter_cases
        screenshot_data_def)

text \<open>
  Claim C3 does not hold of the code: neither loop measures the time a capture took,
  and each sleeps a constant. The polling loop, whose comment names a rate of about
  15 frames a second, asks for a sleep of 1/1000 s after each capture, where pacing
  to 1/15 s after a capture that took 1/50 s would ask for 7/150 s; the media track
  asks for 3/100 s after a capture of any duration, where pacing to 3/100 s after a
  capture that took 1/100 s would ask for 1/50 s.
\<close>

theorem frame_loops_sleep_a_constant:
  "sleeps (snd (outcome (send_screenshots id ''s1''
       [Tick (Some ''A'') True, Tick (Some ''B'') True]
       (start_browser_session ''s1'' Map.empty)))) = [1 / 1000, 1 / 1000]
   \<and> paced_sleep (1 / 15) (1 / 50) = 7 / 150
   \<and> sleeps (snd (outcome (capture_frames
       [Decoded 720 1280 4 0, ScreenshotRaises] BrowserTrack))) = [3 / 100, 3 / 100]
   \<and> paced_sleep (3 / 100) (1 / 100) = 1 / 50"
  by (simp add: send_screenshots_def send_iter_cases start_browser_session_def
        capture_frames_def capture_frames_iter_def capture_try_def cvtColor_RGBA2RGB_def
        resize_def BrowserTrack_def paced_sleep_def)

text \<open>
  Claim C6, as stated, fails for the polling loop: a screenshot call that raises ends
  \<^verbatim>\<open>send_screenshots\<close>. With a failing capture followed by a good one, the loop is
  left at the first, nothing is sent and the second frame is never captured.
\<close>

theorem polling_loop_capture_failure_counterexample:
  "send_screenshots id ''s1'' [Tick None True, Tick (Some ''frame'') True]
     (start_browser_session ''s1'' Map.empty)
   = Break (start_browser_session ''s1'' Map.empty, [PrintError])"
  by (simp add: send_screenshots_def send_iter_cases)

text \<open>
  Claim C6, amended. In the media track's loop \<^verbatim>\<open>capture_frames\<close>, while the track
  is running, no capture failure ends the loop: every delivery is processed, each
  followed by the sleep, and a failure (the screenshot call raising, a payload that
  does not decode, a conversion or resize that fails) is printed and replaced by the
  placeholder frame. In the polling loop \<^verbatim>\<open>send_screenshots\<close> a screenshot call that
  raises is printed and ends the loop, with nothing sent and the registry unchanged.
\<close>

theorem capture_failure_per_loop:
  "(running track \<longrightarrow>
      (\<exists>track' out. capture_frames caps track = Continue (track', out)
          \<and> running track' \<and> length (sleeps out) = length caps))
   \<and> (running track \<longrightarrow> capture_try cap = Inl e \<longrightarrow>
        capture_frames_iter cap track
          = Continue (track\<lparr>frame := Some capture_error_frame\<rparr>,
                      [PrintError, Sleep (3 / 100)]))
   \<and> capture_try ScreenshotRaises = Inl ExternalError
   \<and> capture_try Undecodable = Inl ExternalError
   \<and> send_screenshots b64encode session_id (Tick None ok # ticks) active_sessions
       = Break (active_sessions, [PrintError])"
proof (intro conjI impI)
  assume "running track"
  then show "\<exists>track' out. capture_frames caps track = Continue (track', out)
          \<and> running track' \<and> length (sleeps out) = length caps"
    by (rule capture_frames_never_breaks)
next
  assume "running track" and "capture_try cap = Inl e"
  then show "capture_frames_iter cap track
          = Continue (track\<lparr>frame := Some capture_error_frame\<rparr>,
                      [PrintError, Sleep (3 / 100)])"
    by (simp add: capture_frames_iter_def)
next
  show "capture_try ScreenshotRaises = Inl ExternalError"
    by (simp add: capture_try_def)
  show "capture_try Undecodable = Inl ExternalError"
    by (simp add: capture_try_def)
  show "send_screenshots b64encode session_id (Tick None ok # ticks) active_sessions
       = Break (active_sessions, [PrintError])"
    by (simp add: send_screenshots_def send_iter_cases)
qed

text \<open>
  The amended claim C6 at a track just created that meets a raising screenshot call,
  an undecodable payload and then a good RGBA screenshot: three iterations, three
  sleeps, and the loop still running.
\<close>

theorem capture_failure_per_loop_witness:
  "running BrowserTrack
   \<and> (\<exists>track' out.
         capture_frames [ScreenshotRaises, Undecodable, Decoded 600 800 4 7] BrowserTrack
           = Continue (track', out)
         \<and> running track'
         \<and> length (sleeps out)
             = length [ScreenshotRaises, Undecodable, Decoded 600 800 4 7])
   \<and> capture_frames_iter ScreenshotRaises BrowserTrack
       = Continue (BrowserTrack\<lparr>frame := Some capture_error_frame\<rparr>,
                   [PrintError, Sleep (3 / 100)])"
  using capture_failure_per_loop
    [where track = BrowserTrack and cap = ScreenshotRaises and e = ExternalError
       and caps = "[ScreenshotRaises, Undecodable, Decoded 600 800 4 7]"
       and ?b64encode = id and session_id = "''s1''" and ok = True and ticks = "[]"
       and active_sessions = Map.empty]
  by (simp add: BrowserTrack_def)

text \<open>
  Claim C9 does not hold of the code. \<^verbatim>\<open>capture_frames\<close> stores frames of 1280 by
  720 in three channels, but \<^verbatim>\<open>recv\<close> never hands one out: its first statement asks
  the track for \<^verbatim>\<open>next_timestamp\<close>, which a class derived from
  \<^verbatim>\<open>MediaStreamTrack\<close> does not have, so every call raises \<^verbatim>\<open>AttributeError\<close>,
  whatever the track holds: on a track just created, and on one that has stored a
  good RGBA screenshot of 800 by 600, resized.
\<close>

theorem recv_raises_attribute_error:
  "recv stamp track = Inl AttributeError
   \<and> recv (0, 1 / 90000) BrowserTrack = Inl AttributeError
   \<and> frame (fst (outcome (capture_frames_iter (Decoded 600 800 4 7) BrowserTrack)))
       = Some (Resize (CvtColorRGBA2RGB (FromImage 600 800 4 7)) 1280 720)
   \<and> recv (3000, 1 / 90000)
       (fst (outcome (capture_frames_iter (Decoded 600 800 4 7) BrowserTrack)))
     = Inl AttributeError"
  by (simp add: recv_def has_next_timestamp_def BrowserTrack_base_def BrowserTrack_def
        capture_frames_iter_def capture_try_def cvtColor_RGBA2RGB_def resize_def)

section \<open>Signalling\<close>

text \<open>
  Claim C4. The first message is accepted, and answer generation entered, exactly
  when it is a mapping with an \<^verbatim>\<open>sdp\<close> key whose value is not null and a \<^verbatim>\<open>type\<close> key
  whose value is the string \<^verbatim>\<open>offer\<close>; the session description built carries that
  \<^verbatim>\<open>sdp\<close>, and when the media library produces a local description with an SDP, the
  answer is the first thing sent. Any other payload raises before answer generation:
  the handler reports the error, runs its cleanup and closes the connection, whatever
  messages follow.
\<close>

theorem offer_accepted_iff_well_formed:
  "((\<exists>sd. receive_offer (Received payload) = Inr sd) \<longleftrightarrow> well_formed_offer payload)
   \<and> (well_formed_offer payload \<longrightarrow>
        (\<exists>d v. payload = JObj d \<and> map_of d ''sdp'' = Some v \<and> v \<noteq> JNull
           \<and> receive_offer (Received payload) = Inr \<lparr>sdp = v, sd_type = JStr ''offer''\<rparr>))
   \<and> (\<forall>sd s ty. receive_offer (Received payload) = Inr sd
          \<longrightarrow> answer sd = Inr (Some (LocalDescription (Some s) ty))
          \<longrightarrow> (\<exists>out conn. websocket_offer answer add_ice (Received payload) rest
                            = (SendAnswer s ty # out, conn)))
   \<and> (\<not> well_formed_offer payload \<longrightarrow>
        (\<exists>e. receive_offer (Received payload) = Inl e
           \<and> websocket_offer answer add_ice (Received payload) rest
               = ([WebSocketError e, Cleanup], Closed)))"
proof (intro conjI allI impI)
  show "(\<exists>sd. receive_offer (Received payload) = Inr sd) \<longleftrightarrow> well_formed_offer payload"
  proof
    assume "\<exists>sd. receive_offer (Received payload) = Inr sd"
    then show "well_formed_offer payload"
      using receive_offer_invalid[of payload] by (cases "well_formed_offer payload") auto
  next
    assume "well_formed_offer payload"
    then show "\<exists>sd. receive_offer (Received payload) = Inr sd"
      using receive_offer_valid[of payload] by blast
  qed
next
  assume "well_formed_offer payload"
  then show "\<exists>d v. payload = JObj d \<and> map_of d ''sdp'' = Some v \<and> v \<noteq> JNull
           \<and> receive_offer (Received payload) = Inr \<lparr>sdp = v, sd_type = JStr ''offer''\<rparr>"
    by (rule receive_offer_valid)
next
  fix sd s ty
  assume "receive_offer (Received payload) = Inr sd"
    and "answer sd = Inr (Some (LocalDescription (Some s) ty))"
  then show "\<exists>out conn. websocket_offer answer add_ice (Received payload) rest
                            = (SendAnswer s ty # out, conn)"
    by (cases "run_loop (candidate_iter add_ice) rest []")
       (auto simp: websocket_offer_def)
next
  assume "\<not> well_formed_offer payload"
  then obtain e where "receive_offer (Received payload) = Inl e"
    using receive_offer_invalid[of payload] by auto
  then show "\<exists>e. receive_offer (Received payload) = Inl e
           \<and> websocket_offer answer add_ice (Received payload) rest
               = ([WebSocketError e, Cleanup], Closed)"
    by (simp add: websocket_offer_def)
qed

text \<open>
  The theorem of claim C4 at the three payloads the specification lists: an offer with
  SDP \<^verbatim>\<open>x\<close> is accepted and answered; an offer without \<^verbatim>\<open>sdp\<close> and a description of
  type \<^verbatim>\<open>answer\<close> close the connection.
\<close>

theorem offer_accepted_iff_well_formed_witness:
  "well_formed_offer (JObj [(''sdp'', JStr ''x''), (''type'', JStr ''offer'')])
   \<and> (\<exists>out conn.
         websocket_offer (\<lambda>sd. Inr (Some (LocalDescription (Some ''y'') ''answer'')))
           (\<lambda>ice. True)
           (Received (JObj [(''sdp'', JStr ''x''), (''type'', JStr ''offer'')])) []
         = (SendAnswer ''y'' ''answer'' # out, conn))
   \<and> \<not> well_formed_offer (JObj [(''type'', JStr ''offer'')])
   \<and> (\<exists>e. websocket_offer (\<lambda>sd. Inr (Some (LocalDescription (Some ''y'') ''answer'')))
             (\<lambda>ice. True) (Received (JObj [(''type'', JStr ''offer'')])) []
           = ([WebSocketError e, Cleanup], Closed))
   \<and> \<not> well_formed_offer (JObj [(''sdp'', JStr ''x''), (''type'', JStr ''answer'')])
   \<and> (\<exists>e. websocket_offer (\<lambda>sd. Inr (Some (LocalDescription (Some ''y'') ''answer'')))
             (\<lambda>ice. True)
             (Received (JObj [(''sdp'', JStr ''x''), (''type'', JStr ''answer'')])) []
           = ([WebSocketError e, Cleanup], Closed))"
proof -
  let ?answer = "\<lambda>sd :: session_description.
                   (Inr (Some (LocalDescription (Some ''y'') ''answer''))
                      :: error + local_description option)"
  let ?add = "\<lambda>ice :: ice_candidate. True"
  let ?good = "JObj [(''sdp'', JStr ''x''), (''type'', JStr ''offer'')]"
  let ?nosdp = "JObj [(''type'', JStr ''offer'')]"
  let ?answ = "JObj [(''sdp'', JStr ''x''), (''type'', JStr ''answer'')]"
  have g: "well_formed_offer ?good" by (simp add: well_formed_offer_def)
  have n: "\<not> well_formed_offer ?nosdp" by (simp add: well_formed_offer_def)
  have a: "\<not> well_formed_offer ?answ" by (simp add: well_formed_offer_def)
  from g offer_accepted_iff_well_formed
         [where payload = ?good and answer = ?answer and add_ice = ?add and rest = "[]"]
  have "\<exists>out conn. websocket_offer ?answer ?add (Received ?good) []
                      = (SendAnswer ''y'' ''answer'' # out, conn)"
    by blast
  moreover from n offer_accepted_iff_well_formed
         [where payload = ?nosdp and answer = ?answer and add_ice = ?add and rest = "[]"]
  have "\<exists>e. websocket_offer ?answer ?add (Received ?nosdp) []
               = ([WebSocketError e, Cleanup], Closed)"
    by blast
  moreover from a offer_accepted_iff_well_formed
         [where payload = ?answ and answer = ?answer and add_ice = ?add and rest = "[]"]
  have "\<exists>e. websocket_offer ?answer ?add (Received ?answ) []
               = ([WebSocketError e, Cleanup], Closed)"
    by blast
  ultimately show ?thesis using g n a by blast
qed

text \<open>
  Claim C5 does not hold of the code in what it says of a complete candidate. A
  candidate that is null, is not a mapping or lacks \<^verbatim>\<open>candidate\<close> or \<^verbatim>\<open>sdpMid\<close> is
  logged and dropped, and the loop goes on; but a mapping with both is never added to
  the peer connection: line 178 builds the library's candidate with the keyword
  \<^verbatim>\<open>candidate\<close>, which is not one of its fields, so the constructor raises, the
  handler of line 185 logs the failure, and \<^verbatim>\<open>pc.addIceCandidate\<close> is not reached.
  No message changes the candidates the peer connection holds.
\<close>

theorem complete_candidate_never_added:
  "fst (outcome (candidate_iter add_ice msg pc)) = pc
   \<and> RTCIceCandidate
       [(''candidate'', JStr ''c''), (''sdpMid'', JStr ''0''), (''sdpMLineIndex'', JNull)]
     = Inl TypeError
   \<and> candidate_iter add_ice
       (Received (JObj [(''candidate'',
                         JObj [(''candidate'', JStr ''c''), (''sdpMid'', JStr ''0'')])])) pc
     = Continue (pc, [CreateCandidateFailed])
   \<and> candidate_iter add_ice (Received (JObj [(''candidate'', JNull)])) pc
     = Continue (pc, [IgnoreNullCandidate])
   \<and> candidate_iter add_ice
       (Received (JObj [(''candidate'', JObj [(''candidate'', JStr ''c'')])])) pc
     = Continue (pc, [CandidateMissingFields])"
proof (intro conjI)
  show "fst (outcome (candidate_iter add_ice msg pc)) = pc"
    by (rule candidate_iter_keeps_candidates)
  show "RTCIceCandidate
       [(''candidate'', JStr ''c''), (''sdpMid'', JStr ''0''), (''sdpMLineIndex'', JNull)]
     = Inl TypeError"
    by (rule RTCIceCandidate_candidate_keyword)
  show "candidate_iter add_ice
       (Received (JObj [(''candidate'',
                         JObj [(''candidate'', JStr ''c''), (''sdpMid'', JStr ''0'')])])) pc
     = Continue (pc, [CreateCandidateFailed])"
    by (simp add: candidate_iter_def RTCIceCandidate_candidate_keyword)
  show "candidate_iter add_ice (Received (JObj [(''candidate'', JNull)])) pc
     = Continue (pc, [IgnoreNullCandidate])"
    by (simp add: candidate_iter_def)
  show "candidate_iter add_ice
       (Received (JObj [(''candidate'', JObj [(''candidate'', JStr ''c'')])])) pc
     = Continue (pc, [CandidateMissingFields])"
    by (simp add: candidate_iter_def)
qed

end
